theory Spec2Isabelle
  imports Complex_Main "HOL-Library.Sublist"
begin

section \<open>Python strings\<close>

text \<open>
  Utterances, field names and field values are Python \<open>str\<close> objects. They are modelled
  as \<open>string\<close>, read as ASCII text: the character classes below are the ASCII part of
  what Python's \<open>str.lower\<close>, \<open>str.split\<close>, \<open>str.title\<close> and the \<open>re\<close> module use.
\<close>

definition ascii_uppercase :: string where
  "ascii_uppercase = ''ABCDEFGHIJKLMNOPQRSTUVWXYZ''"

definition ascii_lowercase :: string where
  "ascii_lowercase = ''abcdefghijklmnopqrstuvwxyz''"

definition is_upper :: "char \<Rightarrow> bool" where
  "is_upper c = (c \<in> set ascii_uppercase)"

definition is_lower :: "char \<Rightarrow> bool" where
  "is_lower c = (c \<in> set ascii_lowercase)"

definition is_alpha :: "char \<Rightarrow> bool" where
  "is_alpha c = (is_upper c \<or> is_lower c)"

definition is_digit :: "char \<Rightarrow> bool" where
  "is_digit c = (c \<in> set ''0123456789'')"

text \<open>
  Whitespace as \<open>str.split()\<close> and the pattern \<open>\s\<close> see it on ASCII text: tab, line feed,
  vertical tab, form feed, carriage return, the four separators 0x1C to 0x1F, and space.
\<close>

definition is_space :: "char \<Rightarrow> bool" where
  "is_space c = (c \<in> set [CHR 0x09, CHR 0x0A, CHR 0x0B, CHR 0x0C, CHR 0x0D,
                            CHR 0x1C, CHR 0x1D, CHR 0x1E, CHR 0x1F, CHR '' ''])"

definition lower_char :: "char \<Rightarrow> char" where
  "lower_char c = (case map_of (zip ascii_uppercase ascii_lowercase) c of
                     Some d \<Rightarrow> d | None \<Rightarrow> c)"

definition upper_char :: "char \<Rightarrow> char" where
  "upper_char c = (case map_of (zip ascii_lowercase ascii_uppercase) c of
                     Some d \<Rightarrow> d | None \<Rightarrow> c)"

text \<open>\<open>s.lower()\<close>\<close>

definition lower :: "string \<Rightarrow> string" where
  "lower s = map lower_char s"

text \<open>\<open>k in s\<close> on strings: \<open>k\<close> occurs in \<open>s\<close> as a contiguous substring.\<close>

fun starts_with :: "string \<Rightarrow> string \<Rightarrow> bool" where
  "starts_with s [] = True"
| "starts_with [] (k # ks) = False"
| "starts_with (c # cs) (k # ks) = (c = k \<and> starts_with cs ks)"

fun str_in :: "string \<Rightarrow> string \<Rightarrow> bool" where
  "str_in k [] = (k = [])"
| "str_in k (c # cs) = (starts_with (c # cs) k \<or> str_in k cs)"

text \<open>\<open>any(k in s for k in ks)\<close>\<close>

definition any_in :: "string list \<Rightarrow> string \<Rightarrow> bool" where
  "any_in ks s = list_ex (\<lambda>k. str_in k s) ks"

text \<open>
  \<open>s.split()\<close>: the maximal runs of non-whitespace characters, in order. The accumulator
  \<open>w\<close> holds the word being read.
\<close>

fun split_acc :: "string \<Rightarrow> string \<Rightarrow> string list" where
  "split_acc w [] = (if w = [] then [] else [w])"
| "split_acc w (c # cs) =
     (if is_space c then (if w = [] then split_acc [] cs else w # split_acc [] cs)
      else split_acc (w @ [c]) cs)"

definition split :: "string \<Rightarrow> string list" where
  "split s = split_acc [] s"

text \<open>\<open>' '.join(ws)\<close>\<close>

fun join_space :: "string list \<Rightarrow> string" where
  "join_space [] = []"
| "join_space [w] = w"
| "join_space (w # v # ws) = w @ '' '' @ join_space (v # ws)"

text \<open>
  \<open>s.title()\<close>: a letter that follows a letter is lowercased, a letter that does not is
  uppercased, every other character is kept. The flag says whether the previous character
  was a letter.
\<close>

fun title_from :: "bool \<Rightarrow> string \<Rightarrow> string" where
  "title_from prev [] = []"
| "title_from prev (c # cs) =
     (if is_alpha c then (if prev then lower_char c else upper_char c) # title_from True cs
      else c # title_from False cs)"

definition title :: "string \<Rightarrow> string" where
  "title s = title_from False s"

section \<open>Regular-expression search\<close>

text \<open>
  Python's \<open>re.search\<close> tries the start positions from left to right and, at each one,
  explores the pattern by backtracking: a greedy optional item is first taken, then
  skipped. A pattern is modelled by the list of its successful matches at one start
  position, in the order the backtracking search finds them; the search returns the
  first match of the leftmost start position that has one.
\<close>

definition opt_chr :: "(char \<Rightarrow> bool) \<Rightarrow> (string \<Rightarrow> 'a list) \<Rightarrow> string \<Rightarrow> 'a list" where
  "opt_chr p k s =
     (case s of [] \<Rightarrow> k [] | c # cs \<Rightarrow> (if p c then k cs else []) @ k s)"

fun digits :: "nat \<Rightarrow> string \<Rightarrow> (string \<times> string) option" where
  "digits 0 s = Some ([], s)"
| "digits (Suc n) [] = None"
| "digits (Suc n) (c # cs) =
     (if is_digit c
      then (case digits n cs of None \<Rightarrow> None | Some (ds, r) \<Rightarrow> Some (c # ds, r))
      else None)"

definition digit_group :: "nat \<Rightarrow> (string \<Rightarrow> string \<Rightarrow> 'a list) \<Rightarrow> string \<Rightarrow> 'a list" where
  "digit_group n k s = (case digits n s of None \<Rightarrow> [] | Some (ds, r) \<Rightarrow> k ds r)"

fun search :: "(string \<Rightarrow> 'a list) \<Rightarrow> string \<Rightarrow> 'a option" where
  "search m [] = (case m [] of [] \<Rightarrow> None | r # _ \<Rightarrow> Some r)"
| "search m (c # cs) = (case m (c # cs) of [] \<Rightarrow> search m cs | r # _ \<Rightarrow> Some r)"

section \<open>VoiceService: phone numbers\<close>

text \<open>\<open>[\s-]\<close>\<close>

definition is_sep :: "char \<Rightarrow> bool" where
  "is_sep c = (is_space c \<or> c = CHR ''-'')"

text \<open>
  The pattern of \<open>extract_phone_number\<close>,
  \<^verbatim>\<open>(\+?1?[\s-]?)?\(?([0-9]{3})\)?[\s-]?([0-9]{3})[\s-]?([0-9]{4})\<close>,
  item by item. A match is the triple of the groups 2, 3 and 4. The optional first group
  can match the empty string, so skipping the group gives no position that taking it does
  not give first.
\<close>

definition number_part :: "string \<Rightarrow> string \<Rightarrow> string \<Rightarrow> (string \<times> string \<times> string) list" where
  "number_part a e = opt_chr is_sep (digit_group 4 (\<lambda>n r. [(a, e, n)]))"

definition exchange_part :: "string \<Rightarrow> string \<Rightarrow> (string \<times> string \<times> string) list" where
  "exchange_part a =
     opt_chr (\<lambda>c. c = CHR '')'') (opt_chr is_sep (digit_group 3 (\<lambda>e. number_part a e)))"

definition area_part :: "string \<Rightarrow> (string \<times> string \<times> string) list" where
  "area_part = opt_chr (\<lambda>c. c = CHR ''('') (digit_group 3 (\<lambda>a. exchange_part a))"

definition phone_pattern :: "string \<Rightarrow> (string \<times> string \<times> string) list" where
  "phone_pattern =
     opt_chr (\<lambda>c. c = CHR ''+'') (opt_chr (\<lambda>c. c = CHR ''1'') (opt_chr is_sep area_part))"

definition extract_phone_number :: "string \<Rightarrow> string option" where
  "extract_phone_number text =
     (case search phone_pattern text of
        Some (area_code, exchange, number) \<Rightarrow> Some (''+1'' @ area_code @ exchange @ number)
      | None \<Rightarrow> None)"

section \<open>VoiceService: email addresses\<close>

text \<open>
  The pattern of \<open>extract_email\<close>,
  \<^verbatim>\<open>\b[A-Za-z0-9._%+-]+@[A-Za-z0-9.-]+\.[A-Z|a-z]{2,}\b\<close>.
  A word boundary \<open>\b\<close> stands between a word character and a non-word character or an
  end of the text, so the matcher is given the character before the start position. A
  greedy repetition of a character class first takes the longest run and gives back one
  character at a time.
\<close>

definition is_word :: "char \<Rightarrow> bool" where
  "is_word c = (is_alpha c \<or> is_digit c \<or> c = CHR ''_'')"

definition word_boundary :: "char option \<Rightarrow> char option \<Rightarrow> bool" where
  "word_boundary p n =
     ((case p of None \<Rightarrow> False | Some c \<Rightarrow> is_word c) \<noteq>
      (case n of None \<Rightarrow> False | Some c \<Rightarrow> is_word c))"

definition first_char :: "string \<Rightarrow> char option" where
  "first_char s = (case s of [] \<Rightarrow> None | c # _ \<Rightarrow> Some c)"

definition rep_cls :: "nat \<Rightarrow> (char \<Rightarrow> bool) \<Rightarrow> (string \<Rightarrow> string \<Rightarrow> 'a list) \<Rightarrow> string \<Rightarrow> 'a list" where
  "rep_cls m p k s =
     concat (map (\<lambda>i. k (take i s) (drop i s)) (rev [m ..< Suc (length (takeWhile p s))]))"

definition lit :: "char \<Rightarrow> (string \<Rightarrow> 'a list) \<Rightarrow> string \<Rightarrow> 'a list" where
  "lit x k s = (case s of [] \<Rightarrow> [] | c # cs \<Rightarrow> if c = x then k cs else [])"

definition is_local :: "char \<Rightarrow> bool" where
  "is_local c = (is_alpha c \<or> is_digit c \<or> c \<in> set ''._%+-'')"

definition is_domain :: "char \<Rightarrow> bool" where
  "is_domain c = (is_alpha c \<or> is_digit c \<or> c \<in> set ''.-'')"

text \<open>\<open>[A-Z|a-z]\<close>: the bar is a member of the class.\<close>

definition is_tld :: "char \<Rightarrow> bool" where
  "is_tld c = (is_alpha c \<or> c = CHR ''|'')"

definition email_pattern :: "char option \<Rightarrow> string \<Rightarrow> string list" where
  "email_pattern prev s =
     (if word_boundary prev (first_char s)
      then rep_cls 1 is_local (\<lambda>l. lit CHR ''@'' (rep_cls 1 is_domain (\<lambda>d. lit CHR ''.''
             (rep_cls 2 is_tld (\<lambda>t r.
                if word_boundary (Some (last t)) (first_char r)
                then [l @ ''@'' @ d @ ''.'' @ t] else []))))) s
      else [])"

fun search_ctx :: "(char option \<Rightarrow> string \<Rightarrow> 'a list) \<Rightarrow> char option \<Rightarrow> string \<Rightarrow> 'a option" where
  "search_ctx m p [] = (case m p [] of [] \<Rightarrow> None | r # _ \<Rightarrow> Some r)"
| "search_ctx m p (c # cs) =
     (case m p (c # cs) of [] \<Rightarrow> search_ctx m (Some c) cs | r # _ \<Rightarrow> Some r)"

definition extract_email :: "string \<Rightarrow> string option" where
  "extract_email text = search_ctx email_pattern None text"

section \<open>VoiceService: fallback intent classification\<close>

text \<open>The values of the classification dictionary: strings and the confidence.\<close>

datatype pyval = Str string | Float rat

definition fallback_intent_classification :: "string \<Rightarrow> string \<Rightarrow> (string \<rightharpoonup> pyval)" where
  "fallback_intent_classification user_speech ctxt =
     (let speech_lower = lower user_speech in
      if ctxt = ''restaurant'' then
        (if any_in [''reservation'', ''book'', ''table'', ''reserve''] speech_lower
         then [''intent'' \<mapsto> Str ''RESERVATION'', ''confidence'' \<mapsto> Float (8 / 10)]
         else if any_in [''menu'', ''food'', ''dish'', ''price'', ''cost''] speech_lower
         then [''intent'' \<mapsto> Str ''MENU_INQUIRY'', ''confidence'' \<mapsto> Float (8 / 10)]
         else if any_in [''hours'', ''open'', ''close'', ''location'', ''address''] speech_lower
         then [''intent'' \<mapsto> Str ''HOURS_LOCATION'', ''confidence'' \<mapsto> Float (8 / 10)]
         else [''intent'' \<mapsto> Str ''OTHER'', ''confidence'' \<mapsto> Float (5 / 10)])
      else if ctxt = ''financial'' then
        (if any_in [''fraud'', ''stolen'', ''unauthorized'', ''locked''] speech_lower
         then [''intent'' \<mapsto> Str ''ACCOUNT_INQUIRY'', ''priority'' \<mapsto> Str ''URGENT'',
               ''confidence'' \<mapsto> Float (8 / 10)]
         else if any_in [''account'', ''balance'', ''statement''] speech_lower
         then [''intent'' \<mapsto> Str ''ACCOUNT_INQUIRY'', ''priority'' \<mapsto> Str ''MEDIUM'',
               ''confidence'' \<mapsto> Float (8 / 10)]
         else if any_in [''loan'', ''credit'', ''mortgage''] speech_lower
         then [''intent'' \<mapsto> Str ''LOAN_APPLICATION'', ''priority'' \<mapsto> Str ''MEDIUM'',
               ''confidence'' \<mapsto> Float (8 / 10)]
         else [''intent'' \<mapsto> Str ''GENERAL'', ''priority'' \<mapsto> Str ''MEDIUM'',
               ''confidence'' \<mapsto> Float (5 / 10)])
      else [''intent'' \<mapsto> Str ''OTHER'', ''confidence'' \<mapsto> Float (5 / 10)])"

section \<open>FinancialService: the fallback extractor\<close>

text \<open>
  A field set is a Python dictionary from field names to strings. \<open>d.get(k)\<close> is \<open>d k\<close>,
  and a looked-up value is truthy when the key is present with a non-empty string.
\<close>

type_synonym fields = "string \<rightharpoonup> string"

definition truthy :: "string option \<Rightarrow> bool" where
  "truthy v = (case v of None \<Rightarrow> False | Some s \<Rightarrow> s \<noteq> [])"

text \<open>
  The loop over \<open>enumerate(words)\<close>: the index after the first word that is \<open>is\<close> or
  \<open>am\<close> in lower case, and \<open>-1\<close> when there is none.
\<close>

fun name_start_from :: "nat \<Rightarrow> string list \<Rightarrow> int" where
  "name_start_from i [] = - 1"
| "name_start_from i (w # ws) =
     (if lower w \<in> set [''is'', ''am''] then int i + 1 else name_start_from (Suc i) ws)"

definition determine_priority :: "string \<Rightarrow> string" where
  "determine_priority text =
     (let text_lower = lower text;
          urgent_keywords = [''fraud'', ''stolen'', ''unauthorized'', ''locked'', ''emergency'', ''hack''];
          high_keywords = [''payment'', ''due'', ''deadline'', ''billing'', ''dispute'', ''access'',
                           ''urgent'']
      in if any_in urgent_keywords text_lower then ''URGENT''
         else if any_in high_keywords text_lower then ''HIGH''
         else ''MEDIUM'')"

definition extract_with_fallback :: "string \<Rightarrow> fields \<Rightarrow> fields" where
  "extract_with_fallback user_input existing_data =
     (let updated_data = existing_data;
          updated_data =
            (if \<not> truthy (existing_data ''name'') \<and>
                any_in [''my name is'', ''i am'', ''this is''] (lower user_input)
             then (let words = split user_input;
                       name_start = name_start_from 0 words
                   in if name_start > 0 \<and> name_start < int (length words)
                      then updated_data(''name'' \<mapsto>
                             title (join_space (take 2 (drop (nat name_start) words))))
                      else updated_data)
             else updated_data);
          updated_data =
            (case extract_phone_number user_input of
               None \<Rightarrow> updated_data
             | Some ph \<Rightarrow> if ph \<noteq> [] then updated_data(''phone'' \<mapsto> ph) else updated_data);
          updated_data =
            (case extract_email user_input of
               None \<Rightarrow> updated_data
             | Some em \<Rightarrow> if em \<noteq> [] then updated_data(''email'' \<mapsto> em) else updated_data);
          updated_data =
            (if \<not> truthy (existing_data ''reason'')
             then updated_data(''reason'' \<mapsto> user_input) else updated_data);
          prio = determine_priority user_input
      in updated_data(''priority'' \<mapsto> prio))"

text \<open>
  The language-model extractor. The model's answer is not part of the program: it is the
  parameter \<open>chat_completion\<close>, which gives the dictionary parsed from the answer, or
  \<open>None\<close> when anything in the attempt raised; the code then falls back to the patterns.
\<close>

record voice_service =
  openai_enabled :: bool
  chat_completion :: "string \<Rightarrow> fields \<Rightarrow> fields option"

definition extract_with_ai :: "voice_service \<Rightarrow> string \<Rightarrow> fields \<Rightarrow> fields" where
  "extract_with_ai vs user_input existing_data =
     (case chat_completion vs user_input existing_data of
        Some result \<Rightarrow> existing_data ++ result
      | None \<Rightarrow> extract_with_fallback user_input existing_data)"

definition extract_customer_info :: "voice_service \<Rightarrow> string \<Rightarrow> fields \<Rightarrow> fields" where
  "extract_customer_info vs user_input existing_data =
     (if openai_enabled vs then extract_with_ai vs user_input existing_data
      else extract_with_fallback user_input existing_data)"

definition questions :: "string \<rightharpoonup> string" where
  "questions =
     [''name'' \<mapsto> ''I'll be happy to help you. First, could you tell me your full name?'',
      ''phone'' \<mapsto> ''Thank you! And what's the best phone number for our team to reach you at?'',
      ''reason'' \<mapsto> ''Perfect! Now, could you briefly tell me what you're calling about today?'',
      ''email'' \<mapsto> ''Would you also like to provide an email address for follow-up?'']"

definition get_next_question :: "string \<Rightarrow> string" where
  "get_next_question missing_field =
     (case questions missing_field of
        Some q \<Rightarrow> q
      | None \<Rightarrow> ''I need a bit more information. Could you repeat that?'')"

section \<open>The database\<close>

text \<open>
  The text column \<open>session_data\<close> is written with \<open>json.dumps\<close> and read with
  \<open>json.loads\<close>, both of the Python library. A stored text is modelled by what
  \<open>json.loads\<close> makes of it: a text that does not parse, kept as it is, or the value
  it denotes. That value is a dictionary for a JSON object, and \<open>None\<close>, a truth value,
  a number, a string or a list for the other JSON texts. A number is kept by its literal.
  The elements of a list are any JSON values. An object is modelled with string values,
  which is what \<open>json.dumps\<close> of a field set gives.
\<close>

datatype json =
    JNull | JBool bool | JNumber string | JString string
  | JArray "json list" | JObject "(string \<times> json) list"

datatype document =
    DObject fields | DNull | DBool bool | DNumber string | DString string | DArray "json list"

datatype session_text = NotJson string | Json document

datatype py_error = JSONDecodeError | KeyError string | AttributeError

definition json_dumps :: "fields \<Rightarrow> session_text" where
  "json_dumps d = Json (DObject d)"

definition json_loads :: "session_text \<Rightarrow> py_error + document" where
  "json_loads t = (case t of NotJson s \<Rightarrow> Inl JSONDecodeError | Json v \<Rightarrow> Inr v)"

text \<open>The truth value of a text: a text that denotes a JSON value is never empty.\<close>

definition text_truthy :: "session_text \<Rightarrow> bool" where
  "text_truthy t = (case t of NotJson s \<Rightarrow> s \<noteq> [] | Json v \<Rightarrow> True)"

datatype InquiryPriority = LOW | MEDIUM | HIGH | URGENT

text \<open>
  The rows of \<open>call_sessions\<close> and \<open>financial_inquiries\<close>. The generated identifiers and
  the timestamps are left out. \<open>call_sid\<close> is unique, so the sessions are a map from it;
  the inquiries are kept in the order they were added.
\<close>

record call_session =
  call_type :: string
  session_data :: "session_text option"

record financial_inquiry =
  customer_name :: string
  phone :: string
  email :: "string option"
  reason :: string
  priority :: InquiryPriority

record db =
  call_sessions :: "string \<rightharpoonup> call_session"
  financial_inquiries :: "financial_inquiry list"

section \<open>FinancialService: sessions and inquiries\<close>

text \<open>
  \<open>get_session_data\<close>: the \<open>try\<close> around \<open>json.loads\<close> catches everything and answers
  with the empty dictionary. What \<open>json.loads\<close> returns is returned as it is, also when
  it is not a dictionary.
\<close>

definition get_session_data :: "db \<Rightarrow> string \<Rightarrow> py_error + document" where
  "get_session_data d call_sid =
     (case call_sessions d call_sid of
        None \<Rightarrow> Inr (DObject Map.empty)
      | Some session \<Rightarrow>
          (case session_data session of
             None \<Rightarrow> Inr (DObject Map.empty)
           | Some t \<Rightarrow>
               if text_truthy t
               then (case json_loads t of Inr v \<Rightarrow> Inr v | Inl e \<Rightarrow> Inr (DObject Map.empty))
               else Inr (DObject Map.empty)))"

definition update_session_data :: "db \<Rightarrow> string \<Rightarrow> fields \<Rightarrow> db" where
  "update_session_data d call_sid data =
     (case call_sessions d call_sid of
        None \<Rightarrow>
          d\<lparr>call_sessions := (call_sessions d)(call_sid \<mapsto>
               \<lparr>call_type = ''financial'', session_data = Some (json_dumps data)\<rparr>)\<rparr>
      | Some session \<Rightarrow>
          d\<lparr>call_sessions := (call_sessions d)(call_sid \<mapsto>
               session\<lparr>session_data := Some (json_dumps data)\<rparr>)\<rparr>)"

definition priority_map :: "string \<rightharpoonup> InquiryPriority" where
  "priority_map = [''URGENT'' \<mapsto> URGENT, ''HIGH'' \<mapsto> HIGH, ''MEDIUM'' \<mapsto> MEDIUM, ''LOW'' \<mapsto> LOW]"

text \<open>\<open>info['name']\<close> raises \<open>KeyError\<close> on a missing key; \<open>info.get('email')\<close> does not.\<close>

definition create_inquiry :: "db \<Rightarrow> fields \<Rightarrow> py_error + (financial_inquiry \<times> db)" where
  "create_inquiry d info =
     (let prio =
            (case priority_map (case info ''priority'' of None \<Rightarrow> ''MEDIUM'' | Some p \<Rightarrow> p) of
               Some q \<Rightarrow> q | None \<Rightarrow> MEDIUM)
      in case info ''name'' of None \<Rightarrow> Inl (KeyError ''name'') | Some n \<Rightarrow>
         (case info ''phone'' of None \<Rightarrow> Inl (KeyError ''phone'') | Some p \<Rightarrow>
         (case info ''reason'' of None \<Rightarrow> Inl (KeyError ''reason'') | Some r \<Rightarrow>
            (let inquiry = \<lparr>customer_name = n, phone = p, email = info ''email'',
                            reason = r, priority = prio\<rparr>
             in Inr (inquiry, d\<lparr>financial_inquiries := financial_inquiries d @ [inquiry]\<rparr>)))))"

section \<open>FinancialService: one turn\<close>

definition required_fields :: "string list" where
  "required_fields = [''name'', ''phone'', ''reason'']"

definition missing_fields :: "fields \<Rightarrow> string list" where
  "missing_fields customer_info = filter (\<lambda>field. \<not> truthy (customer_info field)) required_fields"

definition apology :: string where
  "apology = ''I apologize for the technical difficulty. Please call back during business hours and our team will be happy to assist you.''"

definition thank_you :: "financial_inquiry \<Rightarrow> string" where
  "thank_you inquiry = ''Thank you, '' @ customer_name inquiry @ ''! I've recorded your information and our team will contact you within 24 hours. Have a great day!''"

text \<open>
  \<open>handle_after_hours_inquiry\<close> answers with the reply and the flag \<open>is_complete\<close>; the
  database is passed through. Every exception is caught and answered with the apology;
  what was committed before it stays. A loaded session that is not a dictionary has no
  \<open>get\<close>, so both extractors raise \<open>AttributeError\<close> on it before anything is written.
  The staff notification catches its own exceptions and writes to neither table, so it
  does not appear.
\<close>

definition handle_after_hours_inquiry ::
    "voice_service \<Rightarrow> db \<Rightarrow> string \<Rightarrow> string \<Rightarrow> (string \<times> bool) \<times> db" where
  "handle_after_hours_inquiry vs d user_input call_sid =
     (case get_session_data d call_sid of
        Inl e \<Rightarrow> ((apology, True), d)
      | Inr (DObject existing) \<Rightarrow>
          (let customer_info = extract_customer_info vs user_input existing;
               d1 = update_session_data d call_sid customer_info
           in case missing_fields customer_info of
                field # _ \<Rightarrow> ((get_next_question field, False), d1)
              | [] \<Rightarrow>
                  (case create_inquiry d1 customer_info of
                     Inl e \<Rightarrow> ((apology, True), d1)
                   | Inr (inquiry, d2) \<Rightarrow> ((thank_you inquiry, True), d2)))
      | Inr not_a_dict \<Rightarrow> ((apology, True), d))"

section \<open>The endpoint /voice/financial/process\<close>

text \<open>The TwiML answer: the verbs in order. \<open>Say\<close> has the text and the voice.\<close>

datatype verb = Say string "string option" | Gather string string string

definition gather_more :: verb where
  "gather_more = Gather ''speech'' ''/voice/financial/process'' ''POST''"

text \<open>
  The form fields \<open>SpeechResult\<close> and \<open>CallSid\<close> are optional; \<open>not x\<close> holds for an
  absent and for an empty one. The handler of the turn catches every exception itself, so
  the \<open>except\<close> branch of the endpoint is never entered and does not appear.
\<close>

definition process_financial_request ::
    "voice_service \<Rightarrow> db \<Rightarrow> string option \<Rightarrow> string option \<Rightarrow> verb list \<times> db" where
  "process_financial_request vs d SpeechResult CallSid =
     (let didnt_catch =
            ([Say ''I'm sorry, I didn't catch that. Could you please repeat that?'' None,
              gather_more], d)
      in case SpeechResult of
           None \<Rightarrow> didnt_catch
         | Some speech \<Rightarrow>
             (case CallSid of
                None \<Rightarrow> didnt_catch
              | Some sid \<Rightarrow>
                  if speech = [] \<or> sid = [] then didnt_catch
                  else (case handle_after_hours_inquiry vs d speech sid of
                          ((reply, is_complete), d') \<Rightarrow>
                            ([Say reply (Some ''Polly.Joanna'')] @
                             (if \<not> is_complete then [gather_more] else []), d'))))"

section \<open>Reading a session back, and the configurations of the examples\<close>

text \<open>The value of one field of the stored session of a call, as the next turn loads it.\<close>

definition session_field :: "db \<Rightarrow> string \<Rightarrow> string \<Rightarrow> string option" where
  "session_field d call_sid k =
     (case get_session_data d call_sid of Inr (DObject v) \<Rightarrow> v k | _ \<Rightarrow> None)"

text \<open>The service without a language-model key, and a database with no rows.\<close>

definition demo_voice_service :: voice_service where
  "demo_voice_service = \<lparr>openai_enabled = False, chat_completion = (\<lambda>user_input existing. None)\<rparr>"

definition empty_db :: db where
  "empty_db = \<lparr>call_sessions = Map.empty, financial_inquiries = []\<rparr>"

text \<open>A database whose only session holds a text that is not JSON.\<close>

definition corrupted_db :: db where
  "corrupted_db =
     \<lparr>call_sessions = [''CA1'' \<mapsto> \<lparr>call_type = ''financial'', session_data = Some (NotJson ''{name:'')\<rparr>],
      financial_inquiries = []\<rparr>"

text \<open>A database whose only session holds the JSON text \<open>null\<close>.\<close>

definition null_session_db :: db where
  "null_session_db =
     \<lparr>call_sessions = [''CA1'' \<mapsto> \<lparr>call_type = ''financial'', session_data = Some (Json DNull)\<rparr>],
      financial_inquiries = []\<rparr>"

text \<open>
  A call of three turns: the reason, the name, the phone number. The third turn completes
  the checklist.
\<close>

definition completed_call :: db where
  "completed_call =
     snd (handle_after_hours_inquiry demo_voice_service
       (snd (handle_after_hours_inquiry demo_voice_service
         (snd (handle_after_hours_inquiry demo_voice_service empty_db
            ''I think there is fraud on my card'' ''CA1''))
         ''my name is John Smith'' ''CA1''))
       ''555-123-4567'' ''CA1'')"

section \<open>Substrings\<close>

lemma starts_with_iff: "starts_with s k \<longleftrightarrow> (\<exists>post. s = k @ post)"
  by (induction s k rule: starts_with.induct) auto

lemma str_in_iff: "str_in k s \<longleftrightarrow> (\<exists>pre post. s = pre @ k @ post)"
proof (induction s)
  case Nil
  then show ?case by auto
next
  case (Cons c cs)
  show ?case
  proof
    assume "str_in k (c # cs)"
    then consider "starts_with (c # cs) k" | "str_in k cs" by auto
    then show "\<exists>pre post. c # cs = pre @ k @ post"
    proof cases
      case 1
      then obtain post where "c # cs = k @ post" by (auto simp: starts_with_iff)
      then have "c # cs = [] @ k @ post" by simp
      then show ?thesis by blast
    next
      case 2
      then obtain pre post where "cs = pre @ k @ post" using Cons.IH by blast
      then have "c # cs = (c # pre) @ k @ post" by simp
      then show ?thesis by blast
    qed
  next
    assume "\<exists>pre post. c # cs = pre @ k @ post"
    then obtain pre post where e: "c # cs = pre @ k @ post" by blast
    show "str_in k (c # cs)"
    proof (cases pre)
      case Nil
      then have "starts_with (c # cs) k" using e by (auto simp: starts_with_iff)
      then show ?thesis by simp
    next
      case (Cons p ps)
      then have "cs = ps @ k @ post" using e by simp
      then have "str_in k cs" using Cons.IH by blast
      then show ?thesis by simp
    qed
  qed
qed

section \<open>The phone pattern: what a match is made of\<close>

lemma digits_Some:
  "digits n s = Some (ds, r) \<Longrightarrow> s = ds @ r \<and> length ds = n \<and> list_all is_digit ds"
  by (induction n s arbitrary: ds r rule: digits.induct) (auto split: if_splits option.splits)

lemma in_opt_chr: "x \<in> set (opt_chr p k s) \<Longrightarrow> \<exists>s'. suffix s' s \<and> x \<in> set (k s')"
  by (cases s) (auto simp: opt_chr_def suffix_Cons split: if_splits)

lemma in_digit_group:
  assumes "x \<in> set (digit_group n k s)"
  shows "\<exists>ds r. s = ds @ r \<and> length ds = n \<and> list_all is_digit ds \<and> x \<in> set (k ds r)"
proof (cases "digits n s")
  case None
  then show ?thesis using assms by (simp add: digit_group_def)
next
  case (Some dr)
  obtain ds r where dr: "dr = (ds, r)" by (cases dr)
  have "x \<in> set (k ds r)" using assms Some dr by (simp add: digit_group_def)
  moreover have "s = ds @ r \<and> length ds = n \<and> list_all is_digit ds"
    using digits_Some Some dr by blast
  ultimately show ?thesis by blast
qed

lemma search_Some: "search m s = Some r \<Longrightarrow> \<exists>s'. suffix s' s \<and> r \<in> set (m s')"
proof (induction s)
  case Nil
  then show ?case by (auto split: list.splits)
next
  case (Cons c cs)
  show ?case
  proof (cases "m (c # cs)")
    case Nil
    then have "search m cs = Some r" using Cons.prems by simp
    then obtain s' where "suffix s' cs" "r \<in> set (m s')" using Cons.IH by blast
    then show ?thesis by (meson suffix_ConsI)
  next
    case (Cons x xs)
    then have "r = x" using Cons.prems by simp
    then have "r \<in> set (m (c # cs))" using Cons by simp
    then show ?thesis by blast
  qed
qed

lemma subseq_suffix: "subseq xs s' \<Longrightarrow> suffix s' s \<Longrightarrow> subseq xs s"
  by (auto simp: suffix_def intro: list_emb_append2)

lemma subseq_same_prefix: "subseq ys r \<Longrightarrow> subseq (xs @ ys) (xs @ r)"
  by (induction xs) auto

lemma in_phone_pattern:
  assumes "(a, e, n) \<in> set (phone_pattern s)"
  shows "length a = 3 \<and> length e = 3 \<and> length n = 4 \<and> list_all is_digit (a @ e @ n) \<and>
         subseq (a @ e @ n) s"
proof -
  have "(a, e, n) \<in> set (opt_chr (\<lambda>c. c = CHR ''+'')
          (opt_chr (\<lambda>c. c = CHR ''1'') (opt_chr is_sep area_part)) s)"
    using assms by (simp add: phone_pattern_def)
  from in_opt_chr [OF this] obtain s1 where s1: "suffix s1 s"
      "(a, e, n) \<in> set (opt_chr (\<lambda>c. c = CHR ''1'') (opt_chr is_sep area_part) s1)"
    by blast
  from in_opt_chr [OF s1(2)] obtain s2 where s2: "suffix s2 s1"
      "(a, e, n) \<in> set (opt_chr is_sep area_part s2)"
    by blast
  from in_opt_chr [OF s2(2)] obtain s3 where s3: "suffix s3 s2" "(a, e, n) \<in> set (area_part s3)"
    by blast
  have "(a, e, n) \<in> set (opt_chr (\<lambda>c. c = CHR ''('') (digit_group 3 (\<lambda>a. exchange_part a)) s3)"
    using s3(2) by (simp add: area_part_def)
  from in_opt_chr [OF this] obtain s4 where s4: "suffix s4 s3"
      "(a, e, n) \<in> set (digit_group 3 (\<lambda>a. exchange_part a) s4)"
    by blast
  from in_digit_group [OF s4(2)] obtain a' r4 where a': "s4 = a' @ r4" "length a' = 3"
      "list_all is_digit a'" "(a, e, n) \<in> set (exchange_part a' r4)"
    by blast
  have "(a, e, n) \<in> set (opt_chr (\<lambda>c. c = CHR '')'')
          (opt_chr is_sep (digit_group 3 (\<lambda>e. number_part a' e))) r4)"
    using a'(4) by (simp add: exchange_part_def)
  from in_opt_chr [OF this] obtain s5 where s5: "suffix s5 r4"
      "(a, e, n) \<in> set (opt_chr is_sep (digit_group 3 (\<lambda>e. number_part a' e)) s5)"
    by blast
  from in_opt_chr [OF s5(2)] obtain s6 where s6: "suffix s6 s5"
      "(a, e, n) \<in> set (digit_group 3 (\<lambda>e. number_part a' e) s6)"
    by blast
  from in_digit_group [OF s6(2)] obtain e' r6 where e': "s6 = e' @ r6" "length e' = 3"
      "list_all is_digit e'" "(a, e, n) \<in> set (number_part a' e' r6)"
    by blast
  have "(a, e, n) \<in> set (opt_chr is_sep (digit_group 4 (\<lambda>n r. [(a', e', n)])) r6)"
    using e'(4) by (simp add: number_part_def)
  from in_opt_chr [OF this] obtain s7 where s7: "suffix s7 r6"
      "(a, e, n) \<in> set (digit_group 4 (\<lambda>n r. [(a', e', n)]) s7)"
    by blast
  from in_digit_group [OF s7(2)] obtain n' r7 where n': "s7 = n' @ r7" "length n' = 4"
      "list_all is_digit n'" "(a, e, n) \<in> set [(a', e', n')]"
    by blast
  have eq: "a = a'" "e = e'" "n = n'" using n'(4) by simp_all
  have "subseq (n @ []) (n @ r7)" by (rule subseq_same_prefix) simp
  then have "subseq n s7" using n'(1) eq(3) by simp
  then have "subseq n r6" using s7(1) by (rule subseq_suffix)
  then have "subseq (e @ n) (e @ r6)" by (rule subseq_same_prefix)
  then have "subseq (e @ n) s6" using e'(1) eq(2) by simp
  then have "subseq (e @ n) s5" using s6(1) by (rule subseq_suffix)
  then have "subseq (e @ n) r4" using s5(1) by (rule subseq_suffix)
  then have "subseq (a @ e @ n) (a @ r4)" by (rule subseq_same_prefix)
  then have "subseq (a @ e @ n) s4" using a'(1) eq(1) by simp
  then have "subseq (a @ e @ n) s3" using s4(1) by (rule subseq_suffix)
  then have "subseq (a @ e @ n) s2" using s3(1) by (rule subseq_suffix)
  then have "subseq (a @ e @ n) s1" using s2(1) by (rule subseq_suffix)
  then have "subseq (a @ e @ n) s" using s1(1) by (rule subseq_suffix)
  moreover have "length a = 3" "length e = 3" "length n = 4"
    using a'(2) e'(2) n'(2) eq by simp_all
  moreover have "list_all is_digit (a @ e @ n)"
    using a'(3) e'(3) n'(3) eq by simp
  ultimately show ?thesis by simp
qed

lemma extract_phone_number_shape:
  assumes "extract_phone_number text = Some p"
  shows "\<exists>ds. p = ''+1'' @ ds \<and> length ds = 10 \<and> list_all is_digit ds \<and> subseq ds text"
proof -
  from assms obtain a e n where r: "search phone_pattern text = Some (a, e, n)" "p = ''+1'' @ a @ e @ n"
    by (auto simp: extract_phone_number_def split: option.splits)
  from search_Some [OF r(1)] obtain s' where s': "suffix s' text" "(a, e, n) \<in> set (phone_pattern s')"
    by blast
  note i = in_phone_pattern [OF s'(2)]
  have "subseq (a @ e @ n) text" using i s'(1) subseq_suffix by blast
  moreover have "length (a @ e @ n) = 10" using i by simp
  moreover have "list_all is_digit (a @ e @ n)" using i by simp
  ultimately show ?thesis using r(2) by blast
qed

section \<open>The phone pattern: text before the number\<close>

lemma set_opt_chr_Cons:
  "set (opt_chr p k (c # cs)) = (if p c then set (k cs) else {}) \<union> set (k (c # cs))"
  by (simp add: opt_chr_def)

lemma digit_group_nondigit: "\<not> is_digit c \<Longrightarrow> digit_group (Suc n) k (c # cs) = []"
  by (simp add: digit_group_def)

lemma area_part_skip: "\<not> is_digit c \<Longrightarrow> set (area_part (c # s)) \<subseteq> set (area_part s)"
proof -
  assume nd: "\<not> is_digit c"
  have "set (digit_group 3 (\<lambda>a. exchange_part a) s) \<subseteq> set (area_part s)"
    by (cases s) (auto simp: area_part_def opt_chr_def)
  then show ?thesis using nd
    by (auto simp: area_part_def set_opt_chr_Cons digit_group_nondigit eval_nat_numeral)
qed

lemma area_sub_sep: "set (area_part s) \<subseteq> set (opt_chr is_sep area_part s)"
  by (cases s) (auto simp: opt_chr_def)

lemma sep_sub_one: "set (opt_chr is_sep area_part s) \<subseteq> set (opt_chr (\<lambda>c. c = CHR ''1'') (opt_chr is_sep area_part) s)"
  by (cases s) (auto simp: opt_chr_def)

lemma one_sub_phone: "set (opt_chr (\<lambda>c. c = CHR ''1'') (opt_chr is_sep area_part) s) \<subseteq> set (phone_pattern s)"
  by (cases s) (auto simp: opt_chr_def phone_pattern_def)

lemma area_sub_phone: "set (area_part s) \<subseteq> set (phone_pattern s)"
  using area_sub_sep sep_sub_one one_sub_phone by blast

lemma phone_pattern_skip:
  assumes "\<not> is_digit c"
  shows "set (phone_pattern (c # s)) \<subseteq> set (phone_pattern s)"
proof -
  have c1: "c \<noteq> CHR ''1''" using assms by (auto simp: is_digit_def)
  have a: "set (area_part (c # s)) \<subseteq> set (phone_pattern s)"
    using area_part_skip [OF assms] area_sub_phone by blast
  have b: "set (opt_chr is_sep area_part (c # s)) \<subseteq> set (phone_pattern s)"
    using a area_sub_phone by (auto simp: set_opt_chr_Cons)
  have c: "set (opt_chr (\<lambda>c. c = CHR ''1'') (opt_chr is_sep area_part) (c # s)) \<subseteq> set (phone_pattern s)"
    using b c1 by (auto simp: set_opt_chr_Cons)
  have d: "set (opt_chr (\<lambda>c. c = CHR ''1'') (opt_chr is_sep area_part) s) \<subseteq> set (phone_pattern s)"
    by (rule one_sub_phone)
  show ?thesis unfolding phone_pattern_def [of ] 
    using c d by (auto simp: set_opt_chr_Cons phone_pattern_def)
qed

lemma search_prefix:
  assumes "\<forall>c \<in> set pre. \<not> is_digit c" and "phone_pattern s = [t]"
  shows "search phone_pattern (pre @ s) = Some t"
  using assms
proof (induction pre)
  case Nil
  then show ?case by (cases s) auto
next
  case (Cons c pre)
  have sub: "set (phone_pattern (pre' @ s)) \<subseteq> {t}" if "\<forall>c \<in> set pre'. \<not> is_digit c" for pre'
    using that
  proof (induction pre')
    case Nil
    then show ?case using Cons.prems(2) by simp
  next
    case (Cons x xs)
    then show ?case using phone_pattern_skip [of x "xs @ s"] by auto
  qed
  have "set (phone_pattern ((c # pre) @ s)) \<subseteq> {t}" using sub [of "c # pre"] Cons.prems(1) by blast
  then have "phone_pattern (c # pre @ s) = [] \<or> (\<exists>rs. phone_pattern (c # pre @ s) = t # rs)"
    by (cases "phone_pattern (c # pre @ s)") auto
  moreover have "search phone_pattern (pre @ s) = Some t" using Cons by simp
  ultimately show ?case by auto
qed

lemmas phone_defs = phone_pattern_def area_part_def exchange_part_def number_part_def
      opt_chr_def digit_group_def is_sep_def is_space_def is_digit_def eval_nat_numeral

lemma form1: "phone_pattern (''(555) 123-4567'' @ post) = [(''555'', ''123'', ''4567'')]"
  by (simp add: phone_defs)
lemma form2: "phone_pattern (''555-123-4567'' @ post) = [(''555'', ''123'', ''4567'')]"
  by (simp add: phone_defs)
lemma form3: "phone_pattern (''5551234567'' @ post) = [(''555'', ''123'', ''4567'')]"
  by (simp add: phone_defs)

section \<open>The email pattern: a match is not empty\<close>

lemma in_email_pattern:
  assumes "r \<in> set (email_pattern p s)"
  shows "r \<noteq> []"
proof -
  have "\<exists>l d t. r = l @ ''@'' @ d @ ''.'' @ t"
    using assms
    by (auto simp: email_pattern_def rep_cls_def lit_def split: if_splits list.splits)
  then show ?thesis by auto
qed

lemma search_ctx_Some: "search_ctx m p s = Some r \<Longrightarrow> \<exists>p' s'. r \<in> set (m p' s')"
proof (induction s arbitrary: p)
  case Nil
  then have "r \<in> set (m p [])" by (cases "m p []") auto
  then show ?case by blast
next
  case (Cons c cs)
  show ?case
  proof (cases "m p (c # cs)")
    case Nil
    then have "search_ctx m (Some c) cs = Some r" using Cons.prems by simp
    then show ?thesis using Cons.IH by blast
  next
    case (Cons x xs)
    then have "r \<in> set (m p (c # cs))" using Cons.prems by simp
    then show ?thesis by blast
  qed
qed

lemma extract_email_nonempty:
  assumes "extract_email text = Some e"
  shows "e \<noteq> []"
proof -
  from assms have "search_ctx email_pattern None text = Some e" by (simp add: extract_email_def)
  from search_ctx_Some [OF this] obtain p' s' where "e \<in> set (email_pattern p' s')" by blast
  then show ?thesis by (rule in_email_pattern)
qed

section \<open>The extractor, field by field\<close>

lemma phone_nonempty: "extract_phone_number text = Some p \<Longrightarrow> p \<noteq> []"
  by (auto simp: extract_phone_number_def split: option.splits)

lemma fallback_name:
  "truthy (known ''name'') \<Longrightarrow> extract_with_fallback t known ''name'' = known ''name''"
  by (simp add: extract_with_fallback_def Let_def split: option.splits)

lemma fallback_reason:
  "extract_with_fallback t known ''reason'' =
     (if truthy (known ''reason'') then known ''reason'' else Some t)"
  by (simp add: extract_with_fallback_def Let_def split: option.splits)

lemma fallback_phone:
  "extract_with_fallback t known ''phone'' =
     (case extract_phone_number t of Some p \<Rightarrow> Some p | None \<Rightarrow> known ''phone'')"
  by (auto simp: extract_with_fallback_def Let_def split: option.splits dest: phone_nonempty)

lemma fallback_email:
  "extract_with_fallback t known ''email'' =
     (case extract_email t of Some e \<Rightarrow> Some e | None \<Rightarrow> known ''email'')"
  by (auto simp: extract_with_fallback_def Let_def split: option.splits dest: extract_email_nonempty)

lemma fallback_priority:
  "extract_with_fallback t known ''priority'' = Some (determine_priority t)"
  by (simp add: extract_with_fallback_def Let_def)

section \<open>Sessions, inquiries and one turn\<close>

lemma get_session_data_Inr: "\<exists>v. get_session_data d call_sid = Inr v"
  by (auto simp: get_session_data_def json_loads_def split: option.splits session_text.splits)

lemma get_after_update:
  "get_session_data (update_session_data d call_sid data) call_sid = Inr (DObject data)"
  by (simp add: get_session_data_def update_session_data_def json_loads_def json_dumps_def
      text_truthy_def split: option.splits)

lemma inquiries_update:
  "financial_inquiries (update_session_data d call_sid data) = financial_inquiries d"
  by (simp add: update_session_data_def split: option.splits)

lemma missing_fields_eq:
  "missing_fields info =
     (if truthy (info ''name'') then [] else [''name'']) @
     (if truthy (info ''phone'') then [] else [''phone'']) @
     (if truthy (info ''reason'') then [] else [''reason''])"
  by (simp add: missing_fields_def required_fields_def)

lemma handle_eq:
  assumes "get_session_data d call_sid = Inr (DObject existing)"
  shows "handle_after_hours_inquiry vs d user_input call_sid =
        (case missing_fields (extract_customer_info vs user_input existing) of
           field # _ \<Rightarrow> ((get_next_question field, False),
                          update_session_data d call_sid (extract_customer_info vs user_input existing))
         | [] \<Rightarrow> (case create_inquiry
                          (update_session_data d call_sid (extract_customer_info vs user_input existing))
                          (extract_customer_info vs user_input existing) of
                    Inl e \<Rightarrow> ((apology, True),
                       update_session_data d call_sid (extract_customer_info vs user_input existing))
                  | Inr (inquiry, d2) \<Rightarrow> ((thank_you inquiry, True), d2)))"
  using assms by (simp add: handle_after_hours_inquiry_def Let_def)

lemma handle_not_dict:
  assumes "get_session_data d call_sid = Inr v" and "\<forall>existing. v \<noteq> DObject existing"
  shows "handle_after_hours_inquiry vs d user_input call_sid = ((apology, True), d)"
  using assms by (cases v) (simp_all add: handle_after_hours_inquiry_def)

lemma create_inquiry_Inr:
  assumes "info ''name'' = Some n" and "info ''phone'' = Some p" and "info ''reason'' = Some r"
  shows "\<exists>inquiry. create_inquiry d info =
           Inr (inquiry, d\<lparr>financial_inquiries := financial_inquiries d @ [inquiry]\<rparr>) \<and>
         customer_name inquiry = n \<and> phone inquiry = p \<and> reason inquiry = r"
  using assms by (simp add: create_inquiry_def Let_def)

section \<open>Urgency keywords win the fallback classification\<close>

text \<open>
  C4. Whenever the lower-cased utterance contains one of the urgency keywords \<open>fraud\<close>,
  \<open>stolen\<close>, \<open>unauthorized\<close>, \<open>locked\<close>, wherever it stands and whatever else the
  utterance contains, the fallback classification in the financial context answers with
  intent \<open>ACCOUNT_INQUIRY\<close> and priority \<open>URGENT\<close>.
\<close>

theorem fallback_urgency_wins:
  assumes "k \<in> set [''fraud'', ''stolen'', ''unauthorized'', ''locked'']"
      and "lower user_speech = pre @ k @ post"
  shows "fallback_intent_classification user_speech ''financial'' =
           [''intent'' \<mapsto> Str ''ACCOUNT_INQUIRY'', ''priority'' \<mapsto> Str ''URGENT'',
            ''confidence'' \<mapsto> Float (8 / 10)]"
proof -
  have "str_in k (lower user_speech)" using assms(2) str_in_iff by blast
  then have "any_in [''fraud'', ''stolen'', ''unauthorized'', ''locked''] (lower user_speech)"
    using assms(1) by (auto simp: any_in_def)
  then show ?thesis by (simp add: fallback_intent_classification_def)
qed

text \<open>An utterance with a loan keyword, an account keyword and, after them, an urgency keyword.\<close>

theorem fallback_urgency_wins_witness:
  "lower ''Check my LOAN balance, my card was STOLEN today'' =
     ''check my loan balance, my card was '' @ ''stolen'' @ '' today'' \<and>
   fallback_intent_classification ''Check my LOAN balance, my card was STOLEN today'' ''financial'' =
     [''intent'' \<mapsto> Str ''ACCOUNT_INQUIRY'', ''priority'' \<mapsto> Str ''URGENT'',
      ''confidence'' \<mapsto> Float (8 / 10)]"
proof -
  have l: "lower ''Check my LOAN balance, my card was STOLEN today'' =
     ''check my loan balance, my card was '' @ ''stolen'' @ '' today''"
    by code_simp
  have m: "''stolen'' \<in> set [''fraud'', ''stolen'', ''unauthorized'', ''locked'']" by simp
  show ?thesis using l fallback_urgency_wins [OF m l] by simp
qed

section \<open>A turn without input leaves the database alone\<close>

text \<open>
  C7. When the utterance is absent or empty, or the call identifier is absent (or empty),
  the endpoint answers with the "didn't catch that" prompt followed by a gather, and the
  database, so the stored session of every call, is the one it was given.
\<close>

theorem missing_input_reprompts:
  assumes "SpeechResult = None \<or> SpeechResult = Some [] \<or> CallSid = None \<or> CallSid = Some []"
  shows "process_financial_request vs d SpeechResult CallSid =
           ([Say ''I'm sorry, I didn't catch that. Could you please repeat that?'' None,
             Gather ''speech'' ''/voice/financial/process'' ''POST''], d)"
  using assms
  by (auto simp: process_financial_request_def Let_def gather_more_def split: option.splits)

theorem missing_input_reprompts_witness:
  "process_financial_request demo_voice_service corrupted_db (Some []) (Some ''CA1'') =
     ([Say ''I'm sorry, I didn't catch that. Could you please repeat that?'' None,
       Gather ''speech'' ''/voice/financial/process'' ''POST''], corrupted_db)"
  using missing_input_reprompts [where SpeechResult = "Some []" and CallSid = "Some ''CA1''"
      and vs = demo_voice_service and d = corrupted_db]
  by simp

section \<open>The priority of a created inquiry\<close>

text \<open>
  C9. When the field set has the three required keys, \<open>create_inquiry\<close> appends one
  inquiry whose priority is the enum member named by the \<open>priority\<close> field when that is
  one of \<open>LOW\<close>, \<open>MEDIUM\<close>, \<open>HIGH\<close>, \<open>URGENT\<close>, and \<open>MEDIUM\<close> when the field is absent
  or holds any other string.
\<close>

theorem create_inquiry_priority:
  assumes "info ''name'' = Some n" and "info ''phone'' = Some p" and "info ''reason'' = Some r"
  shows "\<exists>inquiry. create_inquiry d info =
            Inr (inquiry, d\<lparr>financial_inquiries := financial_inquiries d @ [inquiry]\<rparr>) \<and>
          priority inquiry =
            (case info ''priority'' of
               None \<Rightarrow> MEDIUM
             | Some v \<Rightarrow> if v = ''LOW'' then LOW else if v = ''MEDIUM'' then MEDIUM
                         else if v = ''HIGH'' then HIGH else if v = ''URGENT'' then URGENT
                         else MEDIUM)"
  using assms by (auto simp: create_inquiry_def priority_map_def Let_def split: option.splits)

text \<open>A priority written in lower case is not one of the four names.\<close>

theorem create_inquiry_priority_witness:
  "\<exists>inquiry. create_inquiry empty_db
       [''name'' \<mapsto> ''John Smith'', ''phone'' \<mapsto> ''+15551234567'', ''reason'' \<mapsto> ''fraud'',
        ''priority'' \<mapsto> ''urgent''] =
     Inr (inquiry, empty_db\<lparr>financial_inquiries := financial_inquiries empty_db @ [inquiry]\<rparr>) \<and>
     priority inquiry = MEDIUM"
  using create_inquiry_priority [where d = empty_db and n = "''John Smith''"
      and p = "''+15551234567''" and r = "''fraud''"
      and info = "[''name'' \<mapsto> ''John Smith'', ''phone'' \<mapsto> ''+15551234567'',
                   ''reason'' \<mapsto> ''fraud'', ''priority'' \<mapsto> ''urgent'']"]
  by simp

section \<open>Loading a session never fails\<close>

text \<open>
  C10. For every database and call identifier \<open>get_session_data\<close> returns a value and
  raises nothing; it returns the empty dictionary when the call has no session row, when
  the row's \<open>session_data\<close> is null, and when the stored text is not valid JSON. A stored
  text that is valid JSON is returned as the value it denotes, dictionary or not.
\<close>

theorem get_session_data_total:
  "(\<exists>v. get_session_data d call_sid = Inr v) \<and>
   (call_sessions d call_sid = None \<longrightarrow> get_session_data d call_sid = Inr (DObject Map.empty)) \<and>
   (\<forall>row. call_sessions d call_sid = Some row \<and> session_data row = None \<longrightarrow>
      get_session_data d call_sid = Inr (DObject Map.empty)) \<and>
   (\<forall>row s. call_sessions d call_sid = Some row \<and> session_data row = Some (NotJson s) \<longrightarrow>
      get_session_data d call_sid = Inr (DObject Map.empty)) \<and>
   (\<forall>row v. call_sessions d call_sid = Some row \<and> session_data row = Some (Json v) \<longrightarrow>
      get_session_data d call_sid = Inr v)"
  by (auto simp: get_session_data_def json_loads_def text_truthy_def
      split: option.splits sum.splits session_text.splits)

text \<open>A session text that is not JSON, and one that is the JSON text \<open>null\<close>.\<close>

theorem get_session_data_total_witness:
  "get_session_data corrupted_db ''CA1'' = Inr (DObject Map.empty) \<and>
   get_session_data null_session_db ''CA1'' = Inr DNull"
proof -
  have c: "call_sessions corrupted_db ''CA1'' =
          Some \<lparr>call_type = ''financial'', session_data = Some (NotJson ''{name:'')\<rparr>"
    by (simp add: corrupted_db_def)
  have n: "call_sessions null_session_db ''CA1'' =
          Some \<lparr>call_type = ''financial'', session_data = Some (Json DNull)\<rparr>"
    by (simp add: null_session_db_def)
  show ?thesis
    using c n get_session_data_total [of corrupted_db "''CA1''"]
      get_session_data_total [of null_session_db "''CA1''"]
    by simp
qed

section \<open>The next question is the one for the first missing field\<close>

text \<open>
  C5. Let \<open>info\<close> be the field set of the turn (the stored session merged with what the
  utterance gave). When one of \<open>name\<close>, \<open>phone\<close>, \<open>reason\<close> is empty in it, the list
  of missing fields starts with the earliest of them in that order, the handler answers
  with the canned question of exactly that field and with \<open>is_complete = False\<close>, stores
  the session, and creates no inquiry. The answer is a function of which fields are
  missing only.
\<close>

theorem next_question_earliest_missing:
  assumes "get_session_data d call_sid = Inr (DObject existing)"
      and "info = extract_customer_info vs user_input existing"
      and "\<not> truthy (info ''name'') \<or> \<not> truthy (info ''phone'') \<or> \<not> truthy (info ''reason'')"
  shows "(\<exists>later. missing_fields info =
            (if \<not> truthy (info ''name'') then ''name''
             else if \<not> truthy (info ''phone'') then ''phone'' else ''reason'') # later) \<and>
         handle_after_hours_inquiry vs d user_input call_sid =
           ((if \<not> truthy (info ''name'')
             then ''I'll be happy to help you. First, could you tell me your full name?''
             else if \<not> truthy (info ''phone'')
             then ''Thank you! And what's the best phone number for our team to reach you at?''
             else ''Perfect! Now, could you briefly tell me what you're calling about today?'',
             False),
            update_session_data d call_sid info) \<and>
         financial_inquiries (snd (handle_after_hours_inquiry vs d user_input call_sid)) =
           financial_inquiries d"
  using assms(3) unfolding handle_eq [OF assms(1)] assms(2) missing_fields_eq
  by (auto simp: get_next_question_def questions_def inquiries_update)

text \<open>The first turn of a call that gives no name: the name is asked for.\<close>

theorem next_question_earliest_missing_witness:
  "\<not> truthy (extract_customer_info demo_voice_service ''I think there is fraud on my card''
       Map.empty ''name'') \<and>
   handle_after_hours_inquiry demo_voice_service empty_db ''I think there is fraud on my card'' ''CA1'' =
     ((''I'll be happy to help you. First, could you tell me your full name?'', False),
      update_session_data empty_db ''CA1''
        (extract_customer_info demo_voice_service ''I think there is fraud on my card'' Map.empty))"
proof -
  have g: "get_session_data empty_db ''CA1'' = Inr (DObject Map.empty)"
    by (simp add: get_session_data_def empty_db_def)
  have n: "\<not> truthy (extract_customer_info demo_voice_service ''I think there is fraud on my card''
       Map.empty ''name'')"
    by code_simp
  then have m: "\<not> truthy (extract_customer_info demo_voice_service
         ''I think there is fraud on my card'' Map.empty ''name'') \<or>
      \<not> truthy (extract_customer_info demo_voice_service
         ''I think there is fraud on my card'' Map.empty ''phone'') \<or>
      \<not> truthy (extract_customer_info demo_voice_service
         ''I think there is fraud on my card'' Map.empty ''reason'')"
    by simp
  show ?thesis using n next_question_earliest_missing [OF g refl m] by simp
qed

section \<open>Every completing turn creates an inquiry\<close>

text \<open>
  C1, as the code has it. The handler never looks for an inquiry of the call, and an
  inquiry row does not record the call it came from: whenever \<open>name\<close>, \<open>phone\<close> and
  \<open>reason\<close> are all non-empty in the field set of the turn, the handler appends one new
  inquiry built from them to the inquiries that were there, whatever these are, and
  answers with the confirmation and \<open>is_complete = True\<close>.
\<close>

theorem complete_turn_adds_inquiry:
  assumes "get_session_data d call_sid = Inr (DObject existing)"
      and "info = extract_customer_info vs user_input existing"
      and "truthy (info ''name'')" and "truthy (info ''phone'')" and "truthy (info ''reason'')"
  shows "\<exists>inquiry. handle_after_hours_inquiry vs d user_input call_sid =
           ((thank_you inquiry, True),
            (update_session_data d call_sid info)
              \<lparr>financial_inquiries := financial_inquiries d @ [inquiry]\<rparr>) \<and>
           info ''name'' = Some (customer_name inquiry) \<and>
           info ''phone'' = Some (phone inquiry) \<and>
           info ''reason'' = Some (reason inquiry)"
proof -
  obtain n p r where v: "info ''name'' = Some n" "info ''phone'' = Some p" "info ''reason'' = Some r"
    using assms(3-5) by (auto simp: truthy_def split: option.splits)
  have m: "missing_fields info = []" using assms(3-5) by (simp add: missing_fields_eq)
  have h: "handle_after_hours_inquiry vs d user_input call_sid =
        (case create_inquiry (update_session_data d call_sid info) info of
           Inl e \<Rightarrow> ((apology, True), update_session_data d call_sid info)
         | Inr (inquiry, d2) \<Rightarrow> ((thank_you inquiry, True), d2))"
    using m unfolding handle_eq [OF assms(1)] assms(2) by simp
  from create_inquiry_Inr [OF v, of "update_session_data d call_sid info"]
  obtain inquiry where c: "create_inquiry (update_session_data d call_sid info) info =
      Inr (inquiry, (update_session_data d call_sid info)
         \<lparr>financial_inquiries := financial_inquiries (update_session_data d call_sid info) @ [inquiry]\<rparr>)"
      "customer_name inquiry = n" "phone inquiry = p" "reason inquiry = r"
    by blast
  have "handle_after_hours_inquiry vs d user_input call_sid =
           ((thank_you inquiry, True),
            (update_session_data d call_sid info)
              \<lparr>financial_inquiries := financial_inquiries d @ [inquiry]\<rparr>)"
    unfolding h c(1) by (simp add: inquiries_update)
  then show ?thesis using v c(2-4) by blast
qed

theorem complete_turn_adds_inquiry_witness:
  "\<exists>inquiry. handle_after_hours_inquiry demo_voice_service empty_db
       ''my name is John Smith, call 555-123-4567'' ''CA1'' =
     ((thank_you inquiry, True),
      (update_session_data empty_db ''CA1''
         (extract_customer_info demo_voice_service ''my name is John Smith, call 555-123-4567''
            Map.empty))
        \<lparr>financial_inquiries := financial_inquiries empty_db @ [inquiry]\<rparr>)"
proof -
  have g: "get_session_data empty_db ''CA1'' = Inr (DObject Map.empty)"
    by (simp add: get_session_data_def empty_db_def)
  have a: "truthy (extract_customer_info demo_voice_service
      ''my name is John Smith, call 555-123-4567'' Map.empty ''name'')"
    by code_simp
  have b: "truthy (extract_customer_info demo_voice_service
      ''my name is John Smith, call 555-123-4567'' Map.empty ''phone'')"
    by code_simp
  have c: "truthy (extract_customer_info demo_voice_service
      ''my name is John Smith, call 555-123-4567'' Map.empty ''reason'')"
    by code_simp
  show ?thesis using complete_turn_adds_inquiry [OF g refl a b c] by blast
qed

text \<open>
  The claim as stated fails: after the three turns of \<open>completed_call\<close> there is one
  inquiry, and the same third turn sent again for the same call leaves two.
\<close>

theorem replayed_turn_adds_second_inquiry:
  "truthy (session_field completed_call ''CA1'' ''name'') \<and>
   truthy (session_field completed_call ''CA1'' ''phone'') \<and>
   truthy (session_field completed_call ''CA1'' ''reason'') \<and>
   length (financial_inquiries completed_call) = 1 \<and>
   length (financial_inquiries (snd (handle_after_hours_inquiry demo_voice_service completed_call
      ''555-123-4567'' ''CA1''))) = 2"
  by code_simp

section \<open>The stored priority is the one of the last utterance\<close>

text \<open>
  C3, as the code has it. With the pattern extractor, the priority stored in the session
  after a turn is the one determined from that turn's utterance alone, one of \<open>URGENT\<close>,
  \<open>HIGH\<close>, \<open>MEDIUM\<close>; the priority stored before the turn has no part in it. This
  holds whenever the session loads as a dictionary, so for a new call, a null or unreadable
  session text and every session this service has written. When the stored text denotes
  a JSON value that is not an object, the turn ends in the apology and the database is
  left as it was.
\<close>

theorem priority_follows_last_utterance:
  assumes "\<not> openai_enabled vs"
  shows "(\<forall>existing. get_session_data d call_sid = Inr (DObject existing) \<longrightarrow>
            session_field (snd (handle_after_hours_inquiry vs d user_input call_sid)) call_sid
              ''priority'' = Some (determine_priority user_input)) \<and>
         determine_priority user_input \<in> {''URGENT'', ''HIGH'', ''MEDIUM''} \<and>
         (\<forall>v. get_session_data d call_sid = Inr v \<and> (\<forall>existing. v \<noteq> DObject existing) \<longrightarrow>
            handle_after_hours_inquiry vs d user_input call_sid = ((apology, True), d))"
proof (intro conjI allI impI)
  fix existing
  assume g: "get_session_data d call_sid = Inr (DObject existing)"
  define info where "info = extract_customer_info vs user_input existing"
  have i: "info = extract_with_fallback user_input existing"
    using assms by (simp add: info_def extract_customer_info_def)
  have s: "call_sessions (snd (handle_after_hours_inquiry vs d user_input call_sid)) =
           call_sessions (update_session_data d call_sid info)"
    unfolding handle_eq [OF g] info_def [symmetric]
    by (auto simp: create_inquiry_def Let_def split: list.splits option.splits)
  have "get_session_data (snd (handle_after_hours_inquiry vs d user_input call_sid)) call_sid =
        get_session_data (update_session_data d call_sid info) call_sid"
    using s by (simp add: get_session_data_def)
  then show "session_field (snd (handle_after_hours_inquiry vs d user_input call_sid)) call_sid
      ''priority'' = Some (determine_priority user_input)"
    by (simp add: session_field_def get_after_update i fallback_priority)
next
  show "determine_priority user_input \<in> {''URGENT'', ''HIGH'', ''MEDIUM''}"
    by (simp add: determine_priority_def Let_def)
next
  fix v
  assume "get_session_data d call_sid = Inr v \<and> (\<forall>existing. v \<noteq> DObject existing)"
  then show "handle_after_hours_inquiry vs d user_input call_sid = ((apology, True), d)"
    using handle_not_dict by blast
qed

text \<open>A first turn of a call, and a turn of a call whose session text is \<open>null\<close>.\<close>

theorem priority_follows_last_utterance_witness:
  "session_field (snd (handle_after_hours_inquiry demo_voice_service empty_db
      ''my payment is due tomorrow'' ''CA1'')) ''CA1'' ''priority'' = Some ''HIGH'' \<and>
   handle_after_hours_inquiry demo_voice_service null_session_db
      ''my payment is due tomorrow'' ''CA1'' = ((apology, True), null_session_db)"
proof -
  have e: "\<not> openai_enabled demo_voice_service" by (simp add: demo_voice_service_def)
  have p: "determine_priority ''my payment is due tomorrow'' = ''HIGH''" by code_simp
  have g: "get_session_data empty_db ''CA1'' = Inr (DObject Map.empty)"
    by (simp add: get_session_data_def empty_db_def)
  have n: "get_session_data null_session_db ''CA1'' = Inr DNull \<and>
           (\<forall>existing. DNull \<noteq> DObject existing)"
    by (simp add: get_session_data_def null_session_db_def json_loads_def text_truthy_def)
  note t = priority_follows_last_utterance [OF e, of empty_db "''CA1''"
      "''my payment is due tomorrow''"]
  note u = priority_follows_last_utterance [OF e, of null_session_db "''CA1''"
      "''my payment is due tomorrow''"]
  have "session_field (snd (handle_after_hours_inquiry demo_voice_service empty_db
      ''my payment is due tomorrow'' ''CA1'')) ''CA1'' ''priority'' =
      Some (determine_priority ''my payment is due tomorrow'')"
    by (rule t [THEN conjunct1, rule_format, OF g])
  moreover have "handle_after_hours_inquiry demo_voice_service null_session_db
      ''my payment is due tomorrow'' ''CA1'' = ((apology, True), null_session_db)"
    by (rule u [THEN conjunct2, THEN conjunct2, rule_format, OF n])
  ultimately show ?thesis unfolding p by (rule conjI)
qed

text \<open>
  The claim as stated fails: the first turn stores \<open>URGENT\<close>, the second turn of the same
  call, which only gives the name, stores \<open>MEDIUM\<close>.
\<close>

theorem priority_downgraded_by_later_turn:
  "session_field (snd (handle_after_hours_inquiry demo_voice_service empty_db
      ''my card was stolen'' ''CA1'')) ''CA1'' ''priority'' = Some ''URGENT'' \<and>
   session_field (snd (handle_after_hours_inquiry demo_voice_service
      (snd (handle_after_hours_inquiry demo_voice_service empty_db ''my card was stolen'' ''CA1''))
      ''my name is John Smith'' ''CA1'')) ''CA1'' ''priority'' = Some ''MEDIUM''"
  by code_simp

section \<open>Which fields the pattern extractor keeps\<close>

text \<open>
  C2, as the code has it. A non-empty \<open>name\<close> and a non-empty \<open>reason\<close> of the known
  field set are kept. \<open>phone\<close> and \<open>email\<close> are not guarded: each is replaced by the
  match whenever the utterance has one, and kept only when it has none.
\<close>

theorem fallback_keeps_name_and_reason:
  "(truthy (known ''name'') \<longrightarrow> extract_with_fallback t known ''name'' = known ''name'') \<and>
   (truthy (known ''reason'') \<longrightarrow> extract_with_fallback t known ''reason'' = known ''reason'') \<and>
   extract_with_fallback t known ''phone'' =
     (case extract_phone_number t of Some p \<Rightarrow> Some p | None \<Rightarrow> known ''phone'') \<and>
   extract_with_fallback t known ''email'' =
     (case extract_email t of Some e \<Rightarrow> Some e | None \<Rightarrow> known ''email'')"
  using fallback_name [of known t] fallback_reason [of t known] fallback_phone [of t known]
    fallback_email [of t known]
  by simp

theorem fallback_keeps_name_and_reason_witness:
  "extract_with_fallback ''this is Jane Doe''
      [''name'' \<mapsto> ''John Smith'', ''reason'' \<mapsto> ''fraud'', ''phone'' \<mapsto> ''+15551234567''] ''name''
     = Some ''John Smith'' \<and>
   extract_with_fallback ''this is Jane Doe''
      [''name'' \<mapsto> ''John Smith'', ''reason'' \<mapsto> ''fraud'', ''phone'' \<mapsto> ''+15551234567''] ''reason''
     = Some ''fraud'' \<and>
   extract_with_fallback ''this is Jane Doe''
      [''name'' \<mapsto> ''John Smith'', ''reason'' \<mapsto> ''fraud'', ''phone'' \<mapsto> ''+15551234567''] ''phone''
     = Some ''+15551234567''"
proof -
  have n: "extract_phone_number ''this is Jane Doe'' = None" by code_simp
  show ?thesis
    using fallback_keeps_name_and_reason [of
        "[''name'' \<mapsto> ''John Smith'', ''reason'' \<mapsto> ''fraud'', ''phone'' \<mapsto> ''+15551234567'']"
        "''this is Jane Doe''"] n
    by (simp add: truthy_def)
qed

text \<open>
  The claim as stated fails for \<open>phone\<close>: a known, non-empty phone number is overwritten
  by the number of a later utterance.
\<close>

theorem known_phone_overwritten:
  "extract_with_fallback ''sorry, make that 555-999-8888''
      [''name'' \<mapsto> ''John Smith'', ''phone'' \<mapsto> ''+15551234567''] ''phone'' = Some ''+15559998888''"
  by code_simp

section \<open>The reason is the first utterance\<close>

text \<open>
  C8, as the code has it. When \<open>reason\<close> is absent or empty in the known field set, the
  whole utterance is stored as the reason, letter for letter, whether or not the name,
  phone or email patterns also matched it; when \<open>reason\<close> is set, it is kept.
\<close>

theorem reason_is_whole_utterance:
  "(\<not> truthy (known ''reason'') \<longrightarrow> extract_with_fallback t known ''reason'' = Some t) \<and>
   (truthy (known ''reason'') \<longrightarrow> extract_with_fallback t known ''reason'' = known ''reason'')"
  using fallback_reason [of t known] by simp

theorem reason_is_whole_utterance_witness:
  "extract_with_fallback ''I think there is fraud on my card'' Map.empty ''reason'' =
     Some ''I think there is fraud on my card'' \<and>
   extract_with_fallback ''my name is John Smith'' [''reason'' \<mapsto> ''fraud''] ''reason'' = Some ''fraud''"
  using reason_is_whole_utterance [of Map.empty "''I think there is fraud on my card''"]
    reason_is_whole_utterance [of "[''reason'' \<mapsto> ''fraud'']" "''my name is John Smith''"]
  by (simp add: truthy_def)

text \<open>
  The claim as stated fails: an utterance from which the phone pattern took the number
  becomes the reason all the same.
\<close>

theorem consumed_utterance_becomes_reason:
  "extract_with_fallback ''you can reach me at 555-123-4567'' Map.empty ''phone'' =
     Some ''+15551234567'' \<and>
   extract_with_fallback ''you can reach me at 555-123-4567'' Map.empty ''reason'' =
     Some ''you can reach me at 555-123-4567''"
  by code_simp

section \<open>Phone numbers in canonical form\<close>

text \<open>
  C6, as the code has it. The search returns the leftmost match. In a text where no digit
  stands before it, each of \<open>(555) 123-4567\<close>, \<open>555-123-4567\<close> and \<open>5551234567\<close>,
  followed by anything, is extracted as \<open>+15551234567\<close>. Every extracted number is
  \<open>+1\<close> followed by exactly ten digits, which occur in that order in the text. When
  nothing matches, the extraction returns nothing and the extractor keeps the known
  phone field.
\<close>

theorem phone_extraction_canonical:
  "(\<forall>pre num post.
      (\<forall>c \<in> set pre. \<not> is_digit c) \<and>
      num \<in> {''(555) 123-4567'', ''555-123-4567'', ''5551234567''} \<longrightarrow>
      extract_phone_number (pre @ num @ post) = Some ''+15551234567'') \<and>
   (\<forall>text p. extract_phone_number text = Some p \<longrightarrow>
      (\<exists>ds. p = ''+1'' @ ds \<and> length ds = 10 \<and> list_all is_digit ds \<and> subseq ds text)) \<and>
   (\<forall>text known. extract_phone_number text = None \<longrightarrow>
      extract_with_fallback text known ''phone'' = known ''phone'')"
proof (intro conjI allI impI)
  fix pre num post
  assume a: "(\<forall>c \<in> set pre. \<not> is_digit c) \<and>
      num \<in> {''(555) 123-4567'', ''555-123-4567'', ''5551234567''}"
  from a have d: "\<forall>c \<in> set pre. \<not> is_digit c" by (rule conjunct1)
  from a have "num \<in> {''(555) 123-4567'', ''555-123-4567'', ''5551234567''}" by (rule conjunct2)
  then have "num = ''(555) 123-4567'' \<or> num = ''555-123-4567'' \<or> num = ''5551234567''"
    by (simp only: insert_iff empty_iff simp_thms)
  then have m: "phone_pattern (num @ post) = [(''555'', ''123'', ''4567'')]"
  proof (elim disjE)
    assume "num = ''(555) 123-4567''"
    then show ?thesis by (simp only: form1)
  next
    assume "num = ''555-123-4567''"
    then show ?thesis by (simp only: form2)
  next
    assume "num = ''5551234567''"
    then show ?thesis by (simp only: form3)
  qed
  have "search phone_pattern (pre @ num @ post) = Some (''555'', ''123'', ''4567'')"
    by (rule search_prefix [OF d m])
  then show "extract_phone_number (pre @ num @ post) = Some ''+15551234567''"
    by (simp add: extract_phone_number_def)
next
  fix s p
  assume "extract_phone_number s = Some p"
  then show "\<exists>ds. p = ''+1'' @ ds \<and> length ds = 10 \<and> list_all is_digit ds \<and> subseq ds s"
    by (rule extract_phone_number_shape)
next
  fix s known
  assume "extract_phone_number s = None"
  then show "extract_with_fallback s known ''phone'' = known ''phone''"
    by (simp add: fallback_phone)
qed

theorem phone_extraction_canonical_witness:
  "extract_phone_number (''please call me at '' @ ''(555) 123-4567'' @ '' after nine'') =
     Some ''+15551234567'' \<and>
   extract_with_fallback ''no number here'' [''phone'' \<mapsto> ''+15551234567''] ''phone'' =
     [''phone'' \<mapsto> ''+15551234567''] ''phone''"
proof (rule conjI)
  have d: "\<forall>c \<in> set ''please call me at ''. \<not> is_digit c" by (simp add: is_digit_def)
  have m: "''(555) 123-4567'' \<in> {''(555) 123-4567'', ''555-123-4567'', ''5551234567''}"
    by (rule insertI1)
  show "extract_phone_number (''please call me at '' @ ''(555) 123-4567'' @ '' after nine'') =
          Some ''+15551234567''"
    by (rule phone_extraction_canonical [THEN conjunct1, rule_format, OF conjI [OF d m]])
next
  have n: "extract_phone_number ''no number here'' = None" by code_simp
  show "extract_with_fallback ''no number here'' [''phone'' \<mapsto> ''+15551234567''] ''phone'' =
      [''phone'' \<mapsto> ''+15551234567''] ''phone''"
    by (rule phone_extraction_canonical [THEN conjunct2, THEN conjunct2, rule_format, OF n])
qed

text \<open>
  The claim as stated fails on a text that contains \<open>555-123-4567\<close> after an account
  number: the account number is the leftmost match.
\<close>

theorem earlier_digits_are_extracted:
  "extract_phone_number ''Account 1234567890, call me at 555-123-4567'' = Some ''+11234567890''"
  by code_simp

end
